theory Spec2Isabelle
  imports Main
begin

section \<open>Resolver maps and their wrappers (src/resolver/wrap-in-map.ts)\<close>

text \<open>
  A resolver map is a JavaScript object keyed by type name whose values are objects
  keyed by field name. Resolver maps are mutated in place and handed around by
  reference, so they live in a store: an address holds the current state of one
  resolver map object. Resolvers, resolver wrappers, the GraphQL schema and the
  type and field objects looked up in it are opaque values (type variables).
\<close>

type_synonym 'r resolverMap = "string \<rightharpoonup> (string \<rightharpoonup> 'r)"

type_synonym ref = nat

type_synonym 'r store = "ref \<Rightarrow> 'r resolverMap"

record 's dependencies =
  graphqlSchema :: "'s option"

record 's packOptions =
  dependencies :: "'s dependencies"

text \<open>The options object handed to \<open>wrapResolver\<close> (lines 28 to 33).\<close>

record ('t, 'f, 's) wrapperOptions =
  optType :: 't
  optField :: 'f
  optResolvers :: ref
  optPackOptions :: "'s packOptions"

text \<open>
  The errors of the wrapper: the two \<open>throw new Error\<close> of lines 14 and 21, and
  whatever a helper called by the wrapper throws.
\<close>

datatype 'e wrapError =
  GraphqlSchemaExpected
  | CouldNotDetermineResolver string string
  | HelperThrew 'e

text \<open>
  The helpers imported from \<open>./wrap\<close> and \<open>../utils\<close> whose code is not part of
  the file: they are parameters. A call may throw (\<open>Inl\<close>); \<open>wrapResolver\<close>
  receives the resolver map by reference and may read the store. Only
  \<open>addResolverToMap\<close> writes to a resolver map.

  The last two fields are what a property read finds on the prototype chain when
  the object has no property of its own under the name (\<open>constructor\<close>,
  \<open>toString\<close> and the other properties of \<open>Object.prototype\<close>). For a type name
  that is no key of the resolver map, \<open>inheritedType\<close> is \<open>None\<close> when the read
  gives \<open>undefined\<close>, and otherwise tells, for each field name, the value read
  from the inherited value; for a field name that is no key of the object of a
  type, \<open>inheritedField\<close> is the inherited value. In both, \<open>None\<close> stands for
  \<open>undefined\<close> and for any falsy value, which line 19 and line 20 treat alike.
  JavaScript does not check that such a value is a resolver, so it is an \<open>'r\<close>.
\<close>

record ('r, 'w, 's, 't, 'f, 'e) helpers =
  getTypeAndField :: "string \<Rightarrow> string \<Rightarrow> 's \<Rightarrow> 'e + ('t \<times> 'f)"
  wrapResolver :: "'r \<Rightarrow> 'w list \<Rightarrow> ('t, 'f, 's) wrapperOptions \<Rightarrow> 'r store \<Rightarrow> 'e + 'r"
  embedPackOptions :: 'w
  inheritedType :: "string \<Rightarrow> (string \<Rightarrow> 'r option) option"
  inheritedField :: "string \<Rightarrow> 'r option"

text \<open>
  Modelled from the spec: \<open>addResolverToMap\<close> of \<open>../utils\<close>, whose code is missing,
  as it is called on lines 35 to 41, with \<open>overwrite: true\<close>. The resolver map is
  "keyed by type/field": the call stores the resolver at \<open>[typeName][fieldName]\<close>
  of the map object, creating the entry of the type when there is none and
  replacing a resolver already there.
\<close>

definition addResolverToMap :: "'r store \<Rightarrow> ref \<Rightarrow> string \<Rightarrow> string \<Rightarrow> 'r \<Rightarrow> 'r store" where
  "addResolverToMap \<sigma> resolverMap tn fn r =
     (let fields = (case \<sigma> resolverMap tn of None \<Rightarrow> Map.empty | Some fs \<Rightarrow> fs)
      in \<sigma>(resolverMap := (\<sigma> resolverMap)(tn \<mapsto> fields(fn \<mapsto> r))))"

text \<open>
  The entry a resolver map has of its own at \<open>[typeName][fieldName]\<close>: what
  \<open>addResolverToMap\<close> writes, and what the properties below speak of as the
  entries of the map.
\<close>

definition lookupResolver :: "'r resolverMap \<Rightarrow> string \<Rightarrow> string \<Rightarrow> 'r option" where
  "lookupResolver m tn fn = (case m tn of None \<Rightarrow> None | Some fs \<Rightarrow> fs fn)"

text \<open>
  The read \<open>resolverMap[typeName]?.[fieldName]\<close> of line 19: the map's own entry,
  and where the map or the object of the type has no property of its own under
  the name, what the prototype chain gives.
\<close>

definition readResolver ::
  "('r, 'w, 's, 't, 'f, 'e) helpers \<Rightarrow> 'r resolverMap \<Rightarrow> string \<Rightarrow> string \<Rightarrow> 'r option" where
  "readResolver h m tn fn =
     (case m tn of
        Some fs \<Rightarrow> (case fs fn of Some r \<Rightarrow> Some r | None \<Rightarrow> inheritedField h fn)
      | None \<Rightarrow> (case inheritedType h tn of None \<Rightarrow> None | Some props \<Rightarrow> props fn))"

text \<open>
  \<open>wrapResolverInMap\<close> returns an arrow function that closes over its four
  parameters. The arrow function assigns to two of them (\<open>resolver\<close> on line 19,
  \<open>resolverWrappers\<close> on line 26), so the captured variables are state that
  survives from one call of the returned wrapper to the next.
\<close>

record ('r, 'w) closure =
  typeName :: string
  fieldName :: string
  resolverWrappers :: "'w list"
  resolver :: "'r option"

definition wrapResolverInMap :: "string \<Rightarrow> string \<Rightarrow> 'w list \<Rightarrow> 'r option \<Rightarrow> ('r, 'w) closure" where
  "wrapResolverInMap tn fn ws r =
     \<lparr>typeName = tn, fieldName = fn, resolverWrappers = ws, resolver = r\<rparr>"

text \<open>
  The returned \<open>ResolverMapWrapper\<close> (lines 11 to 44): from the captured variables,
  the store, the address of the resolver map and the pack options to the captured
  variables and the store after the call, and either the error thrown or the
  reference returned.
\<close>

definition resolverMapWrapper ::
  "('r, 'w, 's, 't, 'f, 'e) helpers \<Rightarrow> ('r, 'w) closure \<Rightarrow> 'r store \<Rightarrow> ref \<Rightarrow> 's packOptions
     \<Rightarrow> ('r, 'w) closure \<times> 'r store \<times> ('e wrapError + ref)" where
  "resolverMapWrapper h c \<sigma> resolverMap po =
     (case graphqlSchema (dependencies po) of
        None \<Rightarrow> (c, \<sigma>, Inl GraphqlSchemaExpected)
      | Some schema \<Rightarrow>
          (let c1 = c\<lparr>resolver :=
                         (case resolver c of
                            Some r \<Rightarrow> Some r
                          | None \<Rightarrow> readResolver h (\<sigma> resolverMap) (typeName c) (fieldName c))\<rparr>
           in case resolver c1 of
                None \<Rightarrow> (c1, \<sigma>, Inl (CouldNotDetermineResolver (typeName c) (fieldName c)))
              | Some r \<Rightarrow>
                  (let c2 = c1\<lparr>resolverWrappers := resolverWrappers c1 @ [embedPackOptions h]\<rparr>
                   in case getTypeAndField h (typeName c) (fieldName c) schema of
                        Inl e \<Rightarrow> (c2, \<sigma>, Inl (HelperThrew e))
                      | Inr (ty, fld) \<Rightarrow>
                          (case wrapResolver h r (resolverWrappers c2)
                                  \<lparr>optType = ty, optField = fld, optResolvers = resolverMap,
                                   optPackOptions = po\<rparr> \<sigma> of
                             Inl e \<Rightarrow> (c2, \<sigma>, Inl (HelperThrew e))
                           | Inr wrapped \<Rightarrow>
                               (c2,
                                addResolverToMap \<sigma> resolverMap (typeName c) (fieldName c) wrapped,
                                Inr resolverMap)))))"

section \<open>The root query auto-resolver (second file of the source)\<close>

text \<open>
  Values handled by the resolver are JavaScript values: \<open>null\<close>, \<open>undefined\<close>,
  arrays, and anything else (models, connections, scalars), which is opaque.
\<close>

datatype 'a val = Null | Undefined | Array "'a val list" | Other 'a

text \<open>What \<open>coerceToList\<close> returns: a list, or \<open>null\<close> or \<open>undefined\<close>.\<close>

datatype 'b nullable = JNull | JUndefined | Defined 'b

text \<open>
  A named GraphQL type, as far as the resolver looks at it: its \<open>name\<close> and whether
  it is an instance of \<open>GraphQLScalarType\<close>, which is what \<open>isScalarType\<close> of the
  graphql package tests.
\<close>

record namedType =
  name :: string
  scalar :: bool

definition isScalarType :: "namedType \<Rightarrow> bool" where
  "isScalarType t = scalar t"

text \<open>
  The fields of \<open>info\<close> read on line 100 (\<open>infoFieldName\<close> is \<open>info.fieldName\<close>).
  The return type may be wrapped in list and non-null types; its representation
  \<open>'ty\<close> is left open and read through \<open>unwrap\<close> only.
\<close>

record 'ty info =
  returnType :: 'ty
  infoFieldName :: string
  parentType :: namedType

text \<open>\<open>RootQueryResolverMatch\<close>, the object returned on lines 92 to 96.\<close>

record 'a rootQueryResolverMatch =
  models :: "'a val"
  matchedModelName :: "string option"
  modelNameCandidates :: "string list"

text \<open>
  \<open>AutoResolverErrorMeta\<close>, the object built on lines 109 to 118; \<open>metaMatch\<close> is
  its optional \<open>match\<close>, set on line 143.
\<close>

record ('a, 'g, 'c, 'ty) autoResolverErrorMeta =
  metaParent :: "'a val"
  metaArgs :: 'g
  metaInfo :: "'ty info"
  metaContext :: 'c
  autoResolverType :: string
  isRelay :: bool
  usedFieldFilter :: bool
  hasFieldFilter :: bool
  metaMatch :: "'a rootQueryResolverMatch option"

text \<open>
  The errors of the resolver: an error thrown by a collaborator (\<open>Thrown\<close>), the
  \<open>TypeError\<close> of reading a property of \<open>undefined\<close>, the \<open>Error\<close> of line 128
  (parent type name, field name, return type name), the \<open>Error\<close> of line 87
  (the model name and the error caught), and \<open>AutoResolverError\<close> of line 160.
\<close>

datatype ('a, 'e, 'g, 'c, 'ty) resolverError =
  Thrown 'e
  | TypeError
  | ScalarsCannotBeAutoResolved string string string
  | UnableToLookUpCollection "string option" "('a, 'e, 'g, 'c, 'ty) resolverError"
  | AutoResolverError "('a, 'e, 'g, 'c, 'ty) resolverError" "('a, 'g, 'c, 'ty) autoResolverErrorMeta"

text \<open>A field filter: \<open>(results, parent, args, context, info) => any\<close>; it may throw.\<close>

type_synonym ('a, 'e, 'g, 'c, 'ty) fieldFilter =
  "'a val list \<Rightarrow> 'a val \<Rightarrow> 'g \<Rightarrow> 'c \<Rightarrow> 'ty info \<Rightarrow> 'e + 'a val"

text \<open>The two methods of \<open>MirageGraphQLMapper\<close> that are called.\<close>

record ('a, 'e, 'g, 'c, 'ty) mirageMapper =
  findMatchForType :: "string \<Rightarrow> string option"
  findFieldFilter :: "string \<times> string \<Rightarrow> ('a, 'e, 'g, 'c, 'ty) fieldFilter option"

text \<open>
  \<open>mirageServer.schema\<close>: \<open>collectionForType(candidate)\<close> throws or returns
  something of which only the truth value is read; \<open>all(name)\<close> throws, or returns
  \<open>null\<close> or \<open>undefined\<close> (\<open>None\<close>), or a collection, given by its \<open>models\<close>.
  The argument of \<open>all\<close> is \<open>undefined\<close> when no candidate matched.
\<close>

record ('a, 'e) mirageServer =
  collectionForType :: "string \<Rightarrow> 'e + bool"
  schemaAll :: "string option \<Rightarrow> 'e + 'a val list option"

text \<open>
  The helpers imported on lines 50 to 55 whose code is not part of the file; they
  are parameters. \<open>extractDependencies\<close> is called with \<open>required: false\<close> and
  gives the two dependencies, each of which may be \<open>undefined\<close>. The calls made
  inside the \<open>try\<close> of lines 147 to 161 may throw; \<open>unwrap\<close>,
  \<open>extractDependencies\<close>, \<open>cleanRelayConnectionName\<close> and the two methods of the
  mapper are taken to return.
\<close>

record ('a, 'e, 'g, 'c, 'ty) env =
  unwrap :: "'ty \<Rightarrow> namedType"
  extractDependencies ::
    "'c \<Rightarrow> ('a, 'e, 'g, 'c, 'ty) mirageMapper option \<times> ('a, 'e) mirageServer option"
  cleanRelayConnectionName :: "string \<Rightarrow> string option"
  mirageCursorForNode :: "'a val \<Rightarrow> string"
  relayPaginateNodes :: "'a val list \<Rightarrow> 'g \<Rightarrow> ('a val \<Rightarrow> string) \<Rightarrow> 'e + 'a val"
  coerceToList :: "'a val \<Rightarrow> 'e + 'a val list nullable"
  coerceReturnType :: "'a val \<Rightarrow> 'ty info \<Rightarrow> 'e + 'a val"

text \<open>\<open>String.prototype.endsWith\<close>.\<close>

definition endsWith :: "string \<Rightarrow> string \<Rightarrow> bool" where
  "endsWith s t = (length t \<le> length s \<and> drop (length s - length t) s = t)"

text \<open>
  \<open>filter(Boolean)\<close> on a list of names, each a string or \<open>undefined\<close>: the
  empty string and \<open>undefined\<close> are falsy.
\<close>

definition truthy :: "string option \<Rightarrow> bool" where
  "truthy c = (case c of None \<Rightarrow> False | Some s \<Rightarrow> s \<noteq> [])"

definition filterBoolean :: "string option list \<Rightarrow> string list" where
  "filterBoolean cs = map the (filter truthy cs)"

text \<open>
  The callback of \<open>find\<close> (lines 73 to 81): a candidate matches when
  \<open>collectionForType\<close> returns something truthy; whatever is thrown in the
  \<open>try\<close>, also for a \<open>mirageServer\<close> that is \<open>undefined\<close>, counts as no match.
\<close>

definition candidateMatches :: "('a, 'e) mirageServer option \<Rightarrow> string \<Rightarrow> bool" where
  "candidateMatches server candidate =
     (case server of
        None \<Rightarrow> False
      | Some sv \<Rightarrow> (case collectionForType sv candidate of Inl e \<Rightarrow> False | Inr b \<Rightarrow> b))"

text \<open>
  \<open>mirageServer.schema.all(matchedModelName)?.models\<close> inside the \<open>try\<close> of lines
  84 to 90, with the error caught if there is one.
\<close>

definition allModels ::
  "('a, 'e) mirageServer option \<Rightarrow> string option \<Rightarrow> ('a, 'e, 'g, 'c, 'ty) resolverError + 'a val" where
  "allModels server matched =
     (case server of
        None \<Rightarrow> Inl TypeError
      | Some sv \<Rightarrow>
          (case schemaAll sv matched of
             Inl e \<Rightarrow> Inl (Thrown e)
           | Inr None \<Rightarrow> Inr Undefined
           | Inr (Some ms) \<Rightarrow> Inr (Array ms)))"

text \<open>
  Lines 64 to 71: \<open>mappedModelName\<close> is \<open>mirageMapper\<close> when that is
  \<open>undefined\<close>, the type's name when that is the empty string, and what
  \<open>findMatchForType\<close> returns otherwise; the candidates are listed in the order of
  preference of the comment on lines 67 to 70 and the falsy ones are dropped.
\<close>

definition mappedModelNameOf ::
  "('a, 'e, 'g, 'c, 'ty) mirageMapper option \<Rightarrow> namedType \<Rightarrow> string option" where
  "mappedModelNameOf mapper t =
     (case mapper of
        None \<Rightarrow> None
      | Some mp \<Rightarrow> if name t = [] then Some [] else findMatchForType mp (name t))"

definition modelNameCandidatesOf ::
  "('a, 'e, 'g, 'c, 'ty) env \<Rightarrow> 'ty \<Rightarrow> ('a, 'e, 'g, 'c, 'ty) mirageMapper option \<Rightarrow> string list" where
  "modelNameCandidatesOf E ty mapper =
     (let t = unwrap E ty
      in filterBoolean
           [mappedModelNameOf mapper t, cleanRelayConnectionName E (name t), Some (name t)])"

definition findMatchingModelsForType ::
  "('a, 'e, 'g, 'c, 'ty) env \<Rightarrow> 'ty \<Rightarrow> ('a, 'e, 'g, 'c, 'ty) mirageMapper option
     \<Rightarrow> ('a, 'e) mirageServer option
     \<Rightarrow> ('a, 'e, 'g, 'c, 'ty) resolverError + 'a rootQueryResolverMatch" where
  "findMatchingModelsForType E ty mapper server =
     (let candidates = modelNameCandidatesOf E ty mapper;
          matched = List.find (candidateMatches server) candidates
      in case allModels server matched of
           Inl e \<Rightarrow> Inl (UnableToLookUpCollection matched e)
         | Inr ms \<Rightarrow>
             Inr \<lparr>models = ms, matchedModelName = matched, modelNameCandidates = candidates\<rparr>)"

text \<open>The constants of lines 101 to 107 of \<open>mirageRootQueryResolver\<close>.\<close>

definition isRelayPaginated :: "('a, 'e, 'g, 'c, 'ty) env \<Rightarrow> 'ty info \<Rightarrow> bool" where
  "isRelayPaginated E i = endsWith (name (unwrap E (returnType i))) ''Connection''"

definition fieldFilterOf ::
  "('a, 'e, 'g, 'c, 'ty) env \<Rightarrow> 'c \<Rightarrow> 'ty info \<Rightarrow> ('a, 'e, 'g, 'c, 'ty) fieldFilter option" where
  "fieldFilterOf E ctx i =
     (case fst (extractDependencies E ctx) of
        None \<Rightarrow> None
      | Some mp \<Rightarrow> findFieldFilter mp (name (parentType i), infoFieldName i))"

text \<open>The \<open>errorMeta\<close> object as it is built on lines 109 to 118.\<close>

definition errorMeta ::
  "('a, 'e, 'g, 'c, 'ty) env \<Rightarrow> 'a val \<Rightarrow> 'g \<Rightarrow> 'c \<Rightarrow> 'ty info \<Rightarrow> ('a, 'g, 'c, 'ty) autoResolverErrorMeta" where
  "errorMeta E p a ctx i =
     \<lparr>metaParent = p, metaArgs = a, metaInfo = i, metaContext = ctx,
      autoResolverType = ''ROOT_TYPE'',
      isRelay = isRelayPaginated E i,
      usedFieldFilter = False,
      hasFieldFilter = (fieldFilterOf E ctx i \<noteq> None),
      metaMatch = None\<rparr>"

text \<open>
  Lines 121 to 145: the result before the \<open>try\<close>, with the \<open>errorMeta\<close> object as
  it is then. The error for a scalar without a field filter and the errors of
  \<open>findMatchingModelsForType\<close> leave the resolver from here.
\<close>

definition initialResult ::
  "('a, 'e, 'g, 'c, 'ty) env \<Rightarrow> 'a val \<Rightarrow> 'g \<Rightarrow> 'c \<Rightarrow> 'ty info
     \<Rightarrow> ('a, 'e, 'g, 'c, 'ty) resolverError + (('a, 'g, 'c, 'ty) autoResolverErrorMeta \<times> 'a val)" where
  "initialResult E p a ctx i =
     (let hasScalarInReturnType = isScalarType (unwrap E (returnType i)) in
      if hasScalarInReturnType \<and> fieldFilterOf E ctx i = None then
        Inl (ScalarsCannotBeAutoResolved (name (parentType i)) (infoFieldName i)
               (name (unwrap E (returnType i))))
      else if \<not> hasScalarInReturnType then
        (case findMatchingModelsForType E (returnType i)
                (fst (extractDependencies E ctx)) (snd (extractDependencies E ctx)) of
           Inl e \<Rightarrow> Inl e
         | Inr m \<Rightarrow> Inr ((errorMeta E p a ctx i)\<lparr>metaMatch := Some m\<rparr>, models m))
      else Inr (errorMeta E p a ctx i, Null))"

text \<open>\<open>coerceToList(result) ?? []\<close> (line 149).\<close>

definition orEmpty :: "'b list nullable \<Rightarrow> 'b list" where
  "orEmpty l = (case l of Defined xs \<Rightarrow> xs | JNull \<Rightarrow> [] | JUndefined \<Rightarrow> [])"

text \<open>
  Lines 148 to 151: the field filter, when there is one, gives the new result, and
  \<open>usedFieldFilter\<close> is set once the filter has returned.
\<close>

definition applyFieldFilter ::
  "('a, 'e, 'g, 'c, 'ty) env \<Rightarrow> 'a val \<Rightarrow> 'g \<Rightarrow> 'c \<Rightarrow> 'ty info
     \<Rightarrow> ('a, 'g, 'c, 'ty) autoResolverErrorMeta \<Rightarrow> 'a val
     \<Rightarrow> 'e + (('a, 'g, 'c, 'ty) autoResolverErrorMeta \<times> 'a val)" where
  "applyFieldFilter E p a ctx i meta result =
     (case fieldFilterOf E ctx i of
        None \<Rightarrow> Inr (meta, result)
      | Some fieldFilter \<Rightarrow>
          (case coerceToList E result of
             Inl e \<Rightarrow> Inl e
           | Inr l \<Rightarrow>
               (case fieldFilter (orEmpty l) p a ctx i of
                  Inl e \<Rightarrow> Inl e
                | Inr v \<Rightarrow> Inr (meta\<lparr>usedFieldFilter := True\<rparr>, v))))"

text \<open>
  Lines 153 to 158: relay pagination of the nodes, which \<open>nodes &&\<close> skips when
  \<open>coerceToList\<close> gave \<open>null\<close> or \<open>undefined\<close>, or else \<open>coerceReturnType\<close>.
\<close>

definition returnResult ::
  "('a, 'e, 'g, 'c, 'ty) env \<Rightarrow> 'g \<Rightarrow> 'ty info \<Rightarrow> 'a val \<Rightarrow> 'e + 'a val" where
  "returnResult E a i result =
     (if isRelayPaginated E i then
        (case coerceToList E result of
           Inl e \<Rightarrow> Inl e
         | Inr JNull \<Rightarrow> Inr Null
         | Inr JUndefined \<Rightarrow> Inr Undefined
         | Inr (Defined nodes) \<Rightarrow> relayPaginateNodes E nodes a (mirageCursorForNode E))
      else coerceReturnType E result i)"

text \<open>
  \<open>mirageRootQueryResolver\<close> (lines 99 to 162). What is thrown inside the \<open>try\<close>
  is caught and thrown again inside an \<open>AutoResolverError\<close>, with the
  \<open>errorMeta\<close> object as it is when the error is caught.
\<close>

definition mirageRootQueryResolver ::
  "('a, 'e, 'g, 'c, 'ty) env \<Rightarrow> 'a val \<Rightarrow> 'g \<Rightarrow> 'c \<Rightarrow> 'ty info
     \<Rightarrow> ('a, 'e, 'g, 'c, 'ty) resolverError + 'a val" where
  "mirageRootQueryResolver E p a ctx i =
     (case initialResult E p a ctx i of
        Inl e \<Rightarrow> Inl e
      | Inr (meta, result) \<Rightarrow>
          (case applyFieldFilter E p a ctx i meta result of
             Inl e \<Rightarrow> Inl (AutoResolverError (Thrown e) meta)
           | Inr (meta', result') \<Rightarrow>
               (case returnResult E a i result' of
                  Inl e \<Rightarrow> Inl (AutoResolverError (Thrown e) meta')
                | Inr v \<Rightarrow> Inr v)))"

section \<open>Example inputs\<close>

text \<open>
  Concrete inputs at which the theorems below are instantiated. For the wrapper:
  resolvers and wrappers are given by their names, the schema lists its
  \<open>(type, field)\<close> pairs, \<open>getTypeAndField\<close> throws for a pair the schema does not
  have, and \<open>wrapResolver\<close> applies the wrappers from first to last. Of the
  inherited properties, the examples have \<open>constructor\<close> (the function \<open>Object\<close>,
  with its \<open>keys\<close>) for a type name, and \<open>constructor\<close>, \<open>toString\<close> and
  \<open>valueOf\<close> for a field name.
\<close>

definition exHelpers ::
  "(string, string, (string \<times> string) list, string, string, string) helpers" where
  "exHelpers =
     \<lparr>getTypeAndField =
        (\<lambda>tn fn schema. if (tn, fn) \<in> set schema then Inr (tn, fn) else Inl ''no such field''),
      wrapResolver = (\<lambda>r ws opts \<sigma>. Inr (foldl (\<lambda>acc w. w @ ''('' @ acc @ '')'') r ws)),
      embedPackOptions = ''embed'',
      inheritedType =
        (\<lambda>tn. if tn = ''constructor''
              then Some (\<lambda>fn. if fn = ''keys'' then Some ''Object.keys'' else None)
              else None),
      inheritedField =
        (\<lambda>fn. if fn = ''constructor'' \<or> fn = ''toString'' \<or> fn = ''valueOf''
              then Some (''Object.prototype.'' @ fn)
              else None)\<rparr>"

definition exPack :: "(string \<times> string) list packOptions" where
  "exPack = \<lparr>dependencies = \<lparr>graphqlSchema = Some [(''Query'', ''users'')]\<rparr>\<rparr>"

definition exPackNoSchema :: "(string \<times> string) list packOptions" where
  "exPackNoSchema = \<lparr>dependencies = \<lparr>graphqlSchema = None\<rparr>\<rparr>"

text \<open>Pack options whose schema also has a field \<open>toString\<close> on \<open>Query\<close>.\<close>

definition exPackToString :: "(string \<times> string) list packOptions" where
  "exPackToString =
     \<lparr>dependencies = \<lparr>graphqlSchema = Some [(''Query'', ''users''), (''Query'', ''toString'')]\<rparr>\<rparr>"

text \<open>
  A store with two resolver maps: at address 0 the map
  \<open>{Query: {users: r0, posts: r1}, Mutation: {add: r2}}\<close>, at every other address
  the empty map.
\<close>

definition exStore :: "string store" where
  "exStore =
     (\<lambda>a. Map.empty)
       (0 := [''Query'' \<mapsto> [''users'' \<mapsto> ''r0'', ''posts'' \<mapsto> ''r1''],
              ''Mutation'' \<mapsto> [''add'' \<mapsto> ''r2'']])"

text \<open>The same store with the map \<open>{Query: {users: rX}}\<close> at address 1.\<close>

definition exStoreTwo :: "string store" where
  "exStoreTwo = exStore(1 := [''Query'' \<mapsto> [''users'' \<mapsto> ''rX'']])"

text \<open>
  For the resolver: a mirage schema with the collections \<open>user\<close> and
  \<open>userConnection\<close>, a mapper that maps the type \<open>Person\<close> to \<open>user\<close> and the
  type \<open>userConnection\<close> to \<open>account\<close>, which is no collection, and registers
  field filters for five fields of \<open>Query\<close>, and helpers in which
  \<open>coerceToList\<close> passes \<open>null\<close> and \<open>undefined\<close> through,
  \<open>coerceReturnType\<close> returns its argument (and throws for the value \<open>bad\<close>) and
  \<open>relayPaginateNodes\<close> returns a connection over the first \<open>args\<close> nodes.
\<close>

definition exServer :: "(string, string) mirageServer" where
  "exServer =
     \<lparr>collectionForType =
        (\<lambda>c. if c = ''user'' \<or> c = ''userConnection'' then Inr True
             else Inl ''no such collection''),
      schemaAll =
        (\<lambda>m. if m = Some ''user'' then Inr (Some [Other ''u1'', Other ''u2''])
             else if m = Some ''userConnection'' then Inr (Some [])
             else Inl ''collection does not exist'')\<rparr>"

definition exMapper :: "(string, string, nat, nat, namedType) mirageMapper" where
  "exMapper =
     \<lparr>findMatchForType =
        (\<lambda>t. if t = ''Person'' then Some ''user''
             else if t = ''userConnection'' then Some ''account''
             else None),
      findFieldFilter =
        (\<lambda>(t, f).
           if (t, f) = (''Query'', ''first'') then Some (\<lambda>rs p a ctx i. Inr (Array (take 1 rs)))
           else if (t, f) = (''Query'', ''none'') then Some (\<lambda>rs p a ctx i. Inr Null)
           else if (t, f) = (''Query'', ''broken'') then Some (\<lambda>rs p a ctx i. Inl ''filter failed'')
           else if (t, f) = (''Query'', ''bad'') then Some (\<lambda>rs p a ctx i. Inr (Other ''bad''))
           else if (t, f) = (''Query'', ''count'')
             then Some (\<lambda>rs p a ctx i. Inr (Array (Other ''n'' # rs)))
           else None)\<rparr>"

definition exEnv :: "(string, string, nat, nat, namedType) env" where
  "exEnv =
     \<lparr>unwrap = (\<lambda>t. t),
      extractDependencies = (\<lambda>ctx. if ctx = 0 then (Some exMapper, Some exServer) else (None, None)),
      cleanRelayConnectionName =
        (\<lambda>s. if endsWith s ''Connection'' then Some (take (length s - 10) s) else None),
      mirageCursorForNode = (\<lambda>v. case v of Other s \<Rightarrow> s | _ \<Rightarrow> []),
      relayPaginateNodes =
        (\<lambda>nodes a cursor. Inr (Other (''connection:'' @ concat (map cursor (take a nodes))))),
      coerceToList =
        (\<lambda>v. case v of
               Null \<Rightarrow> Inr JNull
             | Undefined \<Rightarrow> Inr JUndefined
             | Array xs \<Rightarrow> Inr (Defined xs)
             | Other x \<Rightarrow> Inr (Defined [Other x])),
      coerceReturnType = (\<lambda>v i. if v = Other ''bad'' then Inl ''cannot coerce'' else Inr v)\<rparr>"

definition exInfo :: "string \<Rightarrow> string \<Rightarrow> bool \<Rightarrow> namedType info" where
  "exInfo field tyName isScalar =
     \<lparr>returnType = \<lparr>name = tyName, scalar = isScalar\<rparr>,
      infoFieldName = field,
      parentType = \<lparr>name = ''Query'', scalar = False\<rparr>\<rparr>"

section \<open>Properties of the wrapper\<close>

lemma lookup_add_same:
  "lookupResolver (addResolverToMap \<sigma> a tn fn r a) tn fn = Some r"
  by (simp add: lookupResolver_def addResolverToMap_def)

text \<open>
  On the first call of the wrapper that \<open>wrapResolverInMap tn fn ws r0\<close> returns,
  with pack options that carry a schema: the resolver chosen is the one passed in,
  or else the one line 19 reads from the map. When the two helper calls return, the
  call returns the reference of the map it was given, and the map then holds at
  \<open>[tn][fn]\<close>, whatever it held there before, what \<open>wrapResolver\<close> made of the
  chosen resolver and of the wrappers \<open>ws\<close> followed by \<open>embedPackOptions\<close>.
\<close>

lemma wrapper_installs_first_call:
  assumes schema: "graphqlSchema (dependencies po) = Some schema"
    and chosen: "r0 = Some r \<or> (r0 = None \<and> readResolver h (\<sigma> resolverMap) tn fn = Some r)"
    and tf: "getTypeAndField h tn fn schema = Inr (ty, fld)"
    and wrapped:
      "wrapResolver h r (ws @ [embedPackOptions h])
         \<lparr>optType = ty, optField = fld, optResolvers = resolverMap, optPackOptions = po\<rparr> \<sigma>
       = Inr w"
  shows "resolverMapWrapper h (wrapResolverInMap tn fn ws r0) \<sigma> resolverMap po
           = (\<lparr>typeName = tn, fieldName = fn, resolverWrappers = ws @ [embedPackOptions h],
               resolver = Some r\<rparr>,
              addResolverToMap \<sigma> resolverMap tn fn w,
              Inr resolverMap)
         \<and> lookupResolver (addResolverToMap \<sigma> resolverMap tn fn w resolverMap) tn fn = Some w"
  using assms
  by (auto simp: resolverMapWrapper_def wrapResolverInMap_def lookup_add_same Let_def)

lemma wrapper_installs_first_call_example:
  "resolverMapWrapper exHelpers (wrapResolverInMap ''Query'' ''users'' [''log''] None)
     exStore 0 exPack
   = (\<lparr>typeName = ''Query'', fieldName = ''users'', resolverWrappers = [''log'', ''embed''],
       resolver = Some ''r0''\<rparr>,
      addResolverToMap exStore 0 ''Query'' ''users'' ''embed(log(r0))'',
      Inr 0)
   \<and> lookupResolver (addResolverToMap exStore 0 ''Query'' ''users'' ''embed(log(r0))'' 0)
        ''Query'' ''users'' = Some ''embed(log(r0))''"
  using wrapper_installs_first_call [of exPack "[(''Query'', ''users'')]" None "''r0''"
      exHelpers exStore 0 "''Query''" "''users''" "''Query''" "''users''" "[''log'']"
      "''embed(log(r0))''"]
  by (simp add: exPack_def exStore_def exHelpers_def readResolver_def)

text \<open>
  C1 fails on a later call of the same wrapper. A wrapper made with the wrapper
  \<open>log\<close> and without a resolver is called on the map at address 0, which has \<open>r0\<close>
  at \<open>[Query][users]\<close>, and then on the map at address 1, which has \<open>rX\<close> there.
  The resolver passed was none, so the resolver chosen for the second map is
  \<open>rX\<close>, and wrapping it with the supplied wrappers followed by
  \<open>embedPackOptions\<close> gives \<open>embed(log(rX))\<close>. Lines 19 and 26 of the first call
  have assigned to the captured variables, and the second call installs
  \<open>embed(embed(log(r0)))\<close>: the resolver of the first map, and
  \<open>embedPackOptions\<close> twice.
\<close>

theorem wrapper_second_call_installs_first_resolver:
  "(let w = wrapResolverInMap ''Query'' ''users'' [''log''] None;
        (w1, \<sigma>1, out1) = resolverMapWrapper exHelpers w exStoreTwo 0 exPack;
        (w2, \<sigma>2, out2) = resolverMapWrapper exHelpers w1 \<sigma>1 1 exPack
    in resolver w = None
     \<and> out1 = Inr 0
     \<and> lookupResolver (\<sigma>1 0) ''Query'' ''users'' = Some ''embed(log(r0))''
     \<and> lookupResolver (\<sigma>1 1) ''Query'' ''users'' = Some ''rX''
     \<and> readResolver exHelpers (\<sigma>1 1) ''Query'' ''users'' = Some ''rX''
     \<and> wrapResolver exHelpers ''rX'' [''log'', embedPackOptions exHelpers]
          \<lparr>optType = ''Query'', optField = ''users'', optResolvers = 1,
           optPackOptions = exPack\<rparr> \<sigma>1
         = Inr ''embed(log(rX))''
     \<and> out2 = Inr 1
     \<and> resolverWrappers w2 = [''log'', ''embed'', ''embed'']
     \<and> lookupResolver (\<sigma>2 1) ''Query'' ''users'' = Some ''embed(embed(log(r0)))'')"
  by (simp add: resolverMapWrapper_def wrapResolverInMap_def exHelpers_def exStoreTwo_def
      exStore_def exPack_def lookupResolver_def readResolver_def addResolverToMap_def Let_def)

text \<open>
  C6: whatever the captured variables hold, a call of the wrapper with pack options
  whose dependencies have no \<open>graphqlSchema\<close> throws the error of line 14, and
  the store (so the resolver map passed in, and every other one) is as before.
\<close>

theorem wrapper_schema_absent:
  "graphqlSchema (dependencies po) = None \<Longrightarrow>
   resolverMapWrapper h c \<sigma> resolverMap po = (c, \<sigma>, Inl GraphqlSchemaExpected)"
  by (simp add: resolverMapWrapper_def)

theorem wrapper_schema_absent_witness:
  "resolverMapWrapper exHelpers (wrapResolverInMap ''Query'' ''users'' [''log''] None)
     exStore 0 exPackNoSchema
   = (wrapResolverInMap ''Query'' ''users'' [''log''] None, exStore, Inl GraphqlSchemaExpected)"
  using wrapper_schema_absent [of exPackNoSchema exHelpers
      "wrapResolverInMap ''Query'' ''users'' [''log''] None" exStore 0]
  by (simp add: exPackNoSchema_def)

text \<open>
  On the first call of a wrapper, with a schema present, the error of line 21 is
  thrown exactly when no resolver was passed to \<open>wrapResolverInMap\<close> and the read
  of line 19 gives nothing, and the store is then as before. The read also finds
  inherited properties: for the field name \<open>toString\<close>, of which the map at
  address 0 has no entry, the call does not throw and installs a wrapped
  \<open>Object.prototype.toString\<close>.
\<close>

lemma wrapper_undetermined_first_call:
  assumes "graphqlSchema (dependencies po) = Some schema"
  shows "(r0 = None \<and> readResolver h (\<sigma> resolverMap) tn fn = None) \<longleftrightarrow>
         snd (snd (resolverMapWrapper h (wrapResolverInMap tn fn ws r0) \<sigma> resolverMap po))
           = Inl (CouldNotDetermineResolver tn fn)"
    and "r0 = None \<and> readResolver h (\<sigma> resolverMap) tn fn = None \<Longrightarrow>
         fst (snd (resolverMapWrapper h (wrapResolverInMap tn fn ws r0) \<sigma> resolverMap po)) = \<sigma>"
  using assms
  by (auto simp: resolverMapWrapper_def wrapResolverInMap_def Let_def
      split: option.splits sum.splits prod.splits)

lemma wrapper_reads_inherited_property:
  "(let w = wrapResolverInMap ''Query'' ''toString'' [] None;
        (w1, \<sigma>1, out1) = resolverMapWrapper exHelpers w exStore 0 exPackToString
    in lookupResolver (exStore 0) ''Query'' ''toString'' = None
     \<and> out1 = Inr 0
     \<and> lookupResolver (\<sigma>1 0) ''Query'' ''toString''
         = Some ''embed(Object.prototype.toString)'')"
  by (simp add: resolverMapWrapper_def wrapResolverInMap_def exHelpers_def exStore_def
      exPackToString_def lookupResolver_def readResolver_def addResolverToMap_def Let_def)

text \<open>
  C7: a wrapper made without a resolver is called on the map at address 0, which has
  a resolver at \<open>[Query][users]\<close>, and then on the map at address 1, which has no
  entry at all. Line 19 of the first call has stored the resolver of the first map
  in the captured variable, so the second call does not throw: it returns, and
  the second map now has a resolver at \<open>[Query][users]\<close>, made from the resolver of
  the first map and from \<open>embedPackOptions\<close> twice (line 26 has run twice).
\<close>

theorem wrapper_second_call_keeps_resolver:
  "(let w = wrapResolverInMap ''Query'' ''users'' [] None;
        (w1, \<sigma>1, out1) = resolverMapWrapper exHelpers w exStore 0 exPack;
        (w2, \<sigma>2, out2) = resolverMapWrapper exHelpers w1 \<sigma>1 1 exPack
    in resolver w = None
     \<and> out1 = Inr 0
     \<and> lookupResolver (\<sigma>1 1) ''Query'' ''users'' = None
     \<and> readResolver exHelpers (\<sigma>1 1) ''Query'' ''users'' = None
     \<and> out2 = Inr 1
     \<and> lookupResolver (\<sigma>2 1) ''Query'' ''users'' = Some ''embed(embed(r0))'')"
  by (simp add: resolverMapWrapper_def wrapResolverInMap_def exHelpers_def exStore_def
      exPack_def lookupResolver_def readResolver_def addResolverToMap_def Let_def)

text \<open>
  C10: a call of the wrapper that returns, whatever the captured variables hold,
  returns the reference it was given; the resolver maps at other addresses are as
  before, and in the map it was given the entries of every other type, and the
  resolvers of every other field of the type, are as before.
\<close>

theorem wrapper_frame:
  assumes "resolverMapWrapper h c \<sigma> resolverMap po = (c', \<sigma>', Inr returned)"
  shows "returned = resolverMap
       \<and> (\<forall>a. a \<noteq> resolverMap \<longrightarrow> \<sigma>' a = \<sigma> a)
       \<and> (\<forall>t. t \<noteq> typeName c \<longrightarrow> \<sigma>' resolverMap t = \<sigma> resolverMap t)
       \<and> (\<forall>f. f \<noteq> fieldName c \<longrightarrow>
             lookupResolver (\<sigma>' resolverMap) (typeName c) f
             = lookupResolver (\<sigma> resolverMap) (typeName c) f)"
  using assms
  by (auto simp: resolverMapWrapper_def addResolverToMap_def lookupResolver_def Let_def
      split: option.splits sum.splits prod.splits)

theorem wrapper_frame_witness:
  "resolverMapWrapper exHelpers (wrapResolverInMap ''Query'' ''users'' [''log''] None)
     exStore 0 exPack
   = (\<lparr>typeName = ''Query'', fieldName = ''users'', resolverWrappers = [''log'', ''embed''],
       resolver = Some ''r0''\<rparr>,
      addResolverToMap exStore 0 ''Query'' ''users'' ''embed(log(r0))'',
      Inr 0)
   \<and> addResolverToMap exStore 0 ''Query'' ''users'' ''embed(log(r0))'' 1 = exStore 1
   \<and> addResolverToMap exStore 0 ''Query'' ''users'' ''embed(log(r0))'' 0 ''Mutation''
       = exStore 0 ''Mutation''
   \<and> lookupResolver (addResolverToMap exStore 0 ''Query'' ''users'' ''embed(log(r0))'' 0)
        ''Query'' ''posts''
       = lookupResolver (exStore 0) ''Query'' ''posts''"
proof -
  let ?c = "wrapResolverInMap ''Query'' ''users'' [''log''] (None :: string option)"
  let ?c' = "\<lparr>typeName = ''Query'', fieldName = ''users'',
              resolverWrappers = [''log'', ''embed''], resolver = Some ''r0''\<rparr>"
  let ?s' = "addResolverToMap exStore 0 ''Query'' ''users'' ''embed(log(r0))''"
  have run: "resolverMapWrapper exHelpers ?c exStore 0 exPack = (?c', ?s', Inr 0)"
    by (simp add: resolverMapWrapper_def wrapResolverInMap_def exHelpers_def exStore_def
        exPack_def readResolver_def Let_def)
  have names: "typeName ?c = ''Query''" "fieldName ?c = ''users''"
    by (simp_all add: wrapResolverInMap_def)
  from wrapper_frame [OF run] names
  have "\<forall>a. a \<noteq> 0 \<longrightarrow> ?s' a = exStore a"
    and "\<forall>t. t \<noteq> ''Query'' \<longrightarrow> ?s' 0 t = exStore 0 t"
    and "\<forall>f. f \<noteq> ''users'' \<longrightarrow>
           lookupResolver (?s' 0) ''Query'' f = lookupResolver (exStore 0) ''Query'' f"
    by simp_all
  then have "?s' 1 = exStore 1" "?s' 0 ''Mutation'' = exStore 0 ''Mutation''"
    "lookupResolver (?s' 0) ''Query'' ''posts'' = lookupResolver (exStore 0) ''Query'' ''posts''"
    by simp_all
  with run show ?thesis by simp
qed

section \<open>Facts about the example inputs\<close>

lemma ex_unwrap [simp]: "unwrap exEnv t = t"
  by (simp add: exEnv_def)

lemma ex_deps [simp]: "extractDependencies exEnv 0 = (Some exMapper, Some exServer)"
  by (simp add: exEnv_def)

lemma ex_clean:
  "cleanRelayConnectionName exEnv s
   = (if endsWith s ''Connection'' then Some (take (length s - 10) s) else None)"
  by (simp add: exEnv_def)

lemma ex_rt [simp]: "returnType (exInfo f t s) = \<lparr>name = t, scalar = s\<rparr>"
  by (simp add: exInfo_def)

lemma ex_pt [simp]: "parentType (exInfo f t s) = \<lparr>name = ''Query'', scalar = False\<rparr>"
  by (simp add: exInfo_def)

lemma ex_fn [simp]: "infoFieldName (exInfo f t s) = f"
  by (simp add: exInfo_def)

lemma ex_cands:
  "modelNameCandidatesOf exEnv \<lparr>name = ''user'', scalar = False\<rparr> (Some exMapper)
   = [''user'']"
  by (simp add: modelNameCandidatesOf_def mappedModelNameOf_def filterBoolean_def truthy_def
      ex_clean endsWith_def exMapper_def Let_def)

lemma ex_filter_first:
  "fieldFilterOf exEnv 0 (exInfo ''first'' ''user'' False)
   = Some (\<lambda>rs p a ctx i. Inr (Array (take 1 rs)))"
  by (simp add: fieldFilterOf_def exMapper_def)

lemma ex_fm:
  "findMatchingModelsForType exEnv \<lparr>name = ''user'', scalar = False\<rparr>
     (Some exMapper) (Some exServer)
   = Inr \<lparr>models = Array [Other ''u1'', Other ''u2''],
          matchedModelName = Some ''user'',
          modelNameCandidates = [''user'']\<rparr>"
  by (simp add: findMatchingModelsForType_def ex_cands allModels_def candidateMatches_def
      exServer_def)

lemma ex_initial_first:
  "initialResult exEnv Null 2 0 (exInfo f ''user'' False)
   = Inr ((errorMeta exEnv Null 2 0 (exInfo f ''user'' False))
            \<lparr>metaMatch :=
               Some \<lparr>models = Array [Other ''u1'', Other ''u2''],
                     matchedModelName = Some ''user'',
                     modelNameCandidates = [''user'']\<rparr>\<rparr>,
          Array [Other ''u1'', Other ''u2''])"
  by (simp add: initialResult_def ex_fm isScalarType_def)

lemma ex_coerceToList:
  "coerceToList exEnv Null = Inr JNull"
  "coerceToList exEnv Undefined = Inr JUndefined"
  "coerceToList exEnv (Array xs) = Inr (Defined xs)"
  "coerceToList exEnv (Other x) = Inr (Defined [Other x])"
  by (simp_all add: exEnv_def)

lemma ex_coerceReturnType:
  "coerceReturnType exEnv v i = (if v = Other ''bad'' then Inl ''cannot coerce'' else Inr v)"
  by (simp add: exEnv_def)

lemma ex_relayPaginateNodes:
  "relayPaginateNodes exEnv nodes a (mirageCursorForNode exEnv)
   = Inr (Other (''connection:'' @ concat (map (mirageCursorForNode exEnv) (take a nodes))))"
  by (simp add: exEnv_def)

lemma ex_cursor: "mirageCursorForNode exEnv (Other s) = s"
  by (simp add: exEnv_def)

lemma ex_isRelayPaginated:
  "isRelayPaginated exEnv (exInfo f ''user'' sc) = False"
  "isRelayPaginated exEnv (exInfo f ''Int'' sc) = False"
  "isRelayPaginated exEnv (exInfo f ''userConnection'' sc) = True"
  "isRelayPaginated exEnv (exInfo f ''IntConnection'' sc) = True"
  by (simp_all add: isRelayPaginated_def endsWith_def)

lemma ex_filter_none:
  "fieldFilterOf exEnv 0 (exInfo ''none'' t sc) = Some (\<lambda>rs p a ctx i. Inr Null)"
  by (simp add: fieldFilterOf_def exMapper_def)

lemma ex_filter_broken:
  "fieldFilterOf exEnv 0 (exInfo ''broken'' t sc) = Some (\<lambda>rs p a ctx i. Inl ''filter failed'')"
  by (simp add: fieldFilterOf_def exMapper_def)

lemma ex_filter_count:
  "fieldFilterOf exEnv 0 (exInfo ''count'' t sc)
   = Some (\<lambda>rs p a ctx i. Inr (Array (Other ''n'' # rs)))"
  by (simp add: fieldFilterOf_def exMapper_def)

lemma ex_filter_absent:
  "fieldFilterOf exEnv 0 (exInfo ''total'' t sc) = None"
  "fieldFilterOf exEnv 0 (exInfo ''people'' t sc) = None"
  by (simp_all add: fieldFilterOf_def exMapper_def)

lemma ex_cands_conn:
  "modelNameCandidatesOf exEnv \<lparr>name = ''userConnection'', scalar = False\<rparr> (Some exMapper)
   = [''account'', ''user'', ''userConnection'']"
  by (simp add: modelNameCandidatesOf_def mappedModelNameOf_def filterBoolean_def truthy_def
      ex_clean endsWith_def exMapper_def Let_def)

lemma ex_fm_conn:
  "findMatchingModelsForType exEnv \<lparr>name = ''userConnection'', scalar = False\<rparr>
     (Some exMapper) (Some exServer)
   = Inr \<lparr>models = Array [Other ''u1'', Other ''u2''],
          matchedModelName = Some ''user'',
          modelNameCandidates = [''account'', ''user'', ''userConnection'']\<rparr>"
  by (simp add: findMatchingModelsForType_def ex_cands_conn allModels_def candidateMatches_def
      exServer_def)

lemma ex_initial_conn:
  "initialResult exEnv Null 2 0 (exInfo f ''userConnection'' False)
   = Inr ((errorMeta exEnv Null 2 0 (exInfo f ''userConnection'' False))
            \<lparr>metaMatch :=
               Some \<lparr>models = Array [Other ''u1'', Other ''u2''],
                     matchedModelName = Some ''user'',
                     modelNameCandidates = [''account'', ''user'', ''userConnection'']\<rparr>\<rparr>,
          Array [Other ''u1'', Other ''u2''])"
  by (simp add: initialResult_def ex_fm_conn isScalarType_def)

lemma ex_apply_none:
  "applyFieldFilter exEnv Null 2 0 (exInfo ''people'' t sc) meta result = Inr (meta, result)"
  by (simp add: applyFieldFilter_def ex_filter_absent)

lemma ex_apply_nulled:
  "applyFieldFilter exEnv Null 2 0 (exInfo ''none'' t sc) meta (Array xs)
   = Inr (meta\<lparr>usedFieldFilter := True\<rparr>, Null)"
  by (simp add: applyFieldFilter_def ex_filter_none ex_coerceToList)

lemma ex_filter_bad:
  "fieldFilterOf exEnv 0 (exInfo ''bad'' t sc) = Some (\<lambda>rs p a ctx i. Inr (Other ''bad''))"
  by (simp add: fieldFilterOf_def exMapper_def)

lemma ex_initial_ghost:
  "initialResult exEnv Null 2 0 (exInfo ''people'' ''Ghost'' False)
   = Inl (UnableToLookUpCollection None (Thrown ''collection does not exist''))"
  by (simp add: initialResult_def isScalarType_def findMatchingModelsForType_def
      modelNameCandidatesOf_def mappedModelNameOf_def filterBoolean_def truthy_def
      ex_clean endsWith_def exMapper_def allModels_def candidateMatches_def exServer_def
      Let_def)

lemma ex_apply_broken:
  "applyFieldFilter exEnv Null 2 0 (exInfo ''broken'' t sc) meta (Array xs)
   = Inl ''filter failed''"
  by (simp add: applyFieldFilter_def ex_filter_broken ex_coerceToList)

lemma ex_apply_bad:
  "applyFieldFilter exEnv Null 2 0 (exInfo ''bad'' t sc) meta (Array xs)
   = Inr (meta\<lparr>usedFieldFilter := True\<rparr>, Other ''bad'')"
  by (simp add: applyFieldFilter_def ex_filter_bad ex_coerceToList)

lemma ex_return_bad:
  "returnResult exEnv 2 (exInfo f ''user'' sc) (Other ''bad'') = Inl ''cannot coerce''"
  by (simp add: returnResult_def ex_isRelayPaginated ex_coerceReturnType)

lemma ex_cands_person:
  "modelNameCandidatesOf exEnv \<lparr>name = ''Person'', scalar = False\<rparr> (Some exMapper)
   = [''user'', ''Person'']"
  by (simp add: modelNameCandidatesOf_def mappedModelNameOf_def filterBoolean_def truthy_def
      ex_clean endsWith_def exMapper_def Let_def)

section \<open>Properties of the root query auto-resolver\<close>

lemma filterBoolean_Some: "map Some (filterBoolean cs) = filter truthy cs"
  by (induction cs) (auto simp: filterBoolean_def truthy_def split: option.splits)

lemma find_first:
  "(case List.find P xs of
      None \<Rightarrow> \<forall>i<length xs. \<not> P (xs ! i)
    | Some c \<Rightarrow> \<exists>i<length xs. xs ! i = c \<and> P c \<and> (\<forall>j<i. \<not> P (xs ! j)))"
  by (auto simp: find_None_iff find_Some_iff in_set_conv_nth split: option.splits)

text \<open>
  C2: \<open>findMatchingModelsForType\<close>, for a mirage server whose \<open>all\<close> returns for the
  name it is asked. The candidates are the truthy ones among the mapper's match for
  the type's name, the relay-cleaned name and the name itself, in this order; the
  matched name is the first candidate for which \<open>collectionForType\<close> returns
  something truthy, and no candidate before it does (none at all when nothing
  matched); the models are those \<open>all\<close> returns for the matched name.
\<close>

theorem findMatching_first_candidate:
  assumes srv: "server = Some sv"
    and coll: "schemaAll sv (List.find (candidateMatches server) (modelNameCandidatesOf E ty mapper))
               = Inr coll"
  shows "findMatchingModelsForType E ty mapper server
           = Inr \<lparr>models = (case coll of None \<Rightarrow> Undefined | Some ms \<Rightarrow> Array ms),
                  matchedModelName =
                    List.find (candidateMatches server) (modelNameCandidatesOf E ty mapper),
                  modelNameCandidates = modelNameCandidatesOf E ty mapper\<rparr>
       \<and> map Some (modelNameCandidatesOf E ty mapper)
           = filter truthy
               [mappedModelNameOf mapper (unwrap E ty),
                cleanRelayConnectionName E (name (unwrap E ty)),
                Some (name (unwrap E ty))]
       \<and> (case List.find (candidateMatches server) (modelNameCandidatesOf E ty mapper) of
            None \<Rightarrow>
              \<forall>i<length (modelNameCandidatesOf E ty mapper).
                 \<not> candidateMatches server (modelNameCandidatesOf E ty mapper ! i)
          | Some c \<Rightarrow>
              \<exists>i<length (modelNameCandidatesOf E ty mapper).
                 modelNameCandidatesOf E ty mapper ! i = c
               \<and> candidateMatches server c
               \<and> (\<forall>j<i. \<not> candidateMatches server (modelNameCandidatesOf E ty mapper ! j)))"
proof -
  have "findMatchingModelsForType E ty mapper server
           = Inr \<lparr>models = (case coll of None \<Rightarrow> Undefined | Some ms \<Rightarrow> Array ms),
                  matchedModelName =
                    List.find (candidateMatches server) (modelNameCandidatesOf E ty mapper),
                  modelNameCandidates = modelNameCandidatesOf E ty mapper\<rparr>"
    using srv coll
    by (auto simp: findMatchingModelsForType_def allModels_def Let_def split: option.splits)
  moreover have "map Some (modelNameCandidatesOf E ty mapper)
           = filter truthy
               [mappedModelNameOf mapper (unwrap E ty),
                cleanRelayConnectionName E (name (unwrap E ty)),
                Some (name (unwrap E ty))]"
    by (simp only: modelNameCandidatesOf_def Let_def filterBoolean_Some)
  ultimately show ?thesis using find_first by blast
qed

theorem findMatching_first_candidate_witness:
  "findMatchingModelsForType exEnv \<lparr>name = ''userConnection'', scalar = False\<rparr>
     (Some exMapper) (Some exServer)
   = Inr \<lparr>models = Array [Other ''u1'', Other ''u2''],
          matchedModelName = Some ''user'',
          modelNameCandidates = [''account'', ''user'', ''userConnection'']\<rparr>
   \<and> \<not> candidateMatches (Some exServer) ''account''
   \<and> candidateMatches (Some exServer) ''user''
   \<and> candidateMatches (Some exServer) ''userConnection''"
  using findMatching_first_candidate [of "Some exServer" exServer exEnv
      "\<lparr>name = ''userConnection'', scalar = False\<rparr>" "Some exMapper"
      "Some [Other ''u1'', Other ''u2'']"]
  by (simp add: ex_cands_conn candidateMatches_def exServer_def)

text \<open>
  C3: for a return type that unwraps to something that is not a scalar, when the
  context has a mirage server whose \<open>all\<close> returns a collection for the matched
  model name, the result before the field filter and before pagination and
  coercion is the array of that collection's models, which is the \<open>models\<close> of the
  match of \<open>findMatchingModelsForType\<close>, and the match is recorded in \<open>errorMeta\<close>.
  What \<open>mirageRootQueryResolver\<close> returns is what the field filter step and the
  pagination or coercion step make of that array; without a field filter, it is
  what pagination or coercion makes of the array itself.
\<close>

theorem initialResult_is_collection:
  assumes nonscalar: "\<not> isScalarType (unwrap E (returnType i))"
    and deps: "extractDependencies E ctx = (mapper, Some sv)"
    and coll: "schemaAll sv
                 (List.find (candidateMatches (Some sv))
                    (modelNameCandidatesOf E (returnType i) mapper))
               = Inr (Some ms)"
    and mt: "m = \<lparr>models = Array ms,
                  matchedModelName =
                    List.find (candidateMatches (Some sv))
                      (modelNameCandidatesOf E (returnType i) mapper),
                  modelNameCandidates = modelNameCandidatesOf E (returnType i) mapper\<rparr>"
    and me: "meta = (errorMeta E p a ctx i)\<lparr>metaMatch := Some m\<rparr>"
  shows "findMatchingModelsForType E (returnType i) mapper (Some sv) = Inr m
       \<and> initialResult E p a ctx i = Inr (meta, Array ms)
       \<and> mirageRootQueryResolver E p a ctx i
           = (case applyFieldFilter E p a ctx i meta (Array ms) of
                Inl e \<Rightarrow> Inl (AutoResolverError (Thrown e) meta)
              | Inr (meta', result') \<Rightarrow>
                  (case returnResult E a i result' of
                     Inl e \<Rightarrow> Inl (AutoResolverError (Thrown e) meta')
                   | Inr v \<Rightarrow> Inr v))
       \<and> (fieldFilterOf E ctx i = None \<longrightarrow>
            mirageRootQueryResolver E p a ctx i
              = (case returnResult E a i (Array ms) of
                   Inl e \<Rightarrow> Inl (AutoResolverError (Thrown e) meta)
                 | Inr v \<Rightarrow> Inr v))"
proof -
  have fm: "findMatchingModelsForType E (returnType i) mapper (Some sv) = Inr m"
    using coll mt by (simp add: findMatchingModelsForType_def allModels_def Let_def)
  have init: "initialResult E p a ctx i = Inr (meta, Array ms)"
    using nonscalar deps fm mt me by (simp add: initialResult_def)
  have whole: "mirageRootQueryResolver E p a ctx i
           = (case applyFieldFilter E p a ctx i meta (Array ms) of
                Inl e \<Rightarrow> Inl (AutoResolverError (Thrown e) meta)
              | Inr (meta', result') \<Rightarrow>
                  (case returnResult E a i result' of
                     Inl e \<Rightarrow> Inl (AutoResolverError (Thrown e) meta')
                   | Inr v \<Rightarrow> Inr v))"
    by (simp add: mirageRootQueryResolver_def init)
  have nofilter: "fieldFilterOf E ctx i = None \<longrightarrow>
            mirageRootQueryResolver E p a ctx i
              = (case returnResult E a i (Array ms) of
                   Inl e \<Rightarrow> Inl (AutoResolverError (Thrown e) meta)
                 | Inr v \<Rightarrow> Inr v)"
    by (simp add: whole applyFieldFilter_def)
  from fm init whole nofilter show ?thesis by blast
qed

theorem initialResult_is_collection_witness:
  "initialResult exEnv Null 2 0 (exInfo ''people'' ''Person'' False)
   = Inr ((errorMeta exEnv Null 2 0 (exInfo ''people'' ''Person'' False))
            \<lparr>metaMatch :=
               Some \<lparr>models = Array [Other ''u1'', Other ''u2''],
                     matchedModelName = Some ''user'',
                     modelNameCandidates = [''user'', ''Person'']\<rparr>\<rparr>,
          Array [Other ''u1'', Other ''u2''])
   \<and> mirageRootQueryResolver exEnv Null 2 0 (exInfo ''people'' ''Person'' False)
       = Inr (Array [Other ''u1'', Other ''u2''])"
proof -
  have a1: "\<not> isScalarType (unwrap exEnv (returnType (exInfo ''people'' ''Person'' False)))"
    by (simp add: isScalarType_def)
  have a3: "schemaAll exServer
              (List.find (candidateMatches (Some exServer))
                 (modelNameCandidatesOf exEnv (returnType (exInfo ''people'' ''Person'' False))
                    (Some exMapper)))
            = Inr (Some [Other ''u1'', Other ''u2''])"
    by (simp add: ex_cands_person candidateMatches_def exServer_def)
  have ret: "returnResult exEnv 2 (exInfo ''people'' ''Person'' False)
               (Array [Other ''u1'', Other ''u2''])
             = Inr (Array [Other ''u1'', Other ''u2''])"
    by (simp add: returnResult_def isRelayPaginated_def endsWith_def ex_coerceReturnType)
  note th = initialResult_is_collection [OF a1 ex_deps a3 refl refl, of Null 2]
  from th have "initialResult exEnv Null 2 0 (exInfo ''people'' ''Person'' False)
     = Inr ((errorMeta exEnv Null 2 0 (exInfo ''people'' ''Person'' False))
              \<lparr>metaMatch :=
                 Some \<lparr>models = Array [Other ''u1'', Other ''u2''],
                       matchedModelName =
                         List.find (candidateMatches (Some exServer))
                           (modelNameCandidatesOf exEnv
                              (returnType (exInfo ''people'' ''Person'' False)) (Some exMapper)),
                       modelNameCandidates =
                         modelNameCandidatesOf exEnv
                           (returnType (exInfo ''people'' ''Person'' False)) (Some exMapper)\<rparr>\<rparr>,
            Array [Other ''u1'', Other ''u2''])"
    by (rule conjunct1 [OF conjunct2])
  then have init: "initialResult exEnv Null 2 0 (exInfo ''people'' ''Person'' False)
     = Inr ((errorMeta exEnv Null 2 0 (exInfo ''people'' ''Person'' False))
              \<lparr>metaMatch :=
                 Some \<lparr>models = Array [Other ''u1'', Other ''u2''],
                       matchedModelName = Some ''user'',
                       modelNameCandidates = [''user'', ''Person'']\<rparr>\<rparr>,
            Array [Other ''u1'', Other ''u2''])"
    by (simp add: ex_cands_person candidateMatches_def exServer_def)
  from th have "fieldFilterOf exEnv 0 (exInfo ''people'' ''Person'' False) = None \<longrightarrow>
      mirageRootQueryResolver exEnv Null 2 0 (exInfo ''people'' ''Person'' False)
        = (case returnResult exEnv 2 (exInfo ''people'' ''Person'' False)
                  (Array [Other ''u1'', Other ''u2'']) of
             Inl e \<Rightarrow>
               Inl (AutoResolverError (Thrown e)
                      ((errorMeta exEnv Null 2 0 (exInfo ''people'' ''Person'' False))
                         \<lparr>metaMatch :=
                            Some \<lparr>models = Array [Other ''u1'', Other ''u2''],
                                  matchedModelName =
                                    List.find (candidateMatches (Some exServer))
                                      (modelNameCandidatesOf exEnv
                                         (returnType (exInfo ''people'' ''Person'' False))
                                         (Some exMapper)),
                                  modelNameCandidates =
                                    modelNameCandidatesOf exEnv
                                      (returnType (exInfo ''people'' ''Person'' False))
                                      (Some exMapper)\<rparr>\<rparr>))
           | Inr v \<Rightarrow> Inr v)"
    by (rule conjunct2 [OF conjunct2 [OF conjunct2]])
  then have "mirageRootQueryResolver exEnv Null 2 0 (exInfo ''people'' ''Person'' False)
      = Inr (Array [Other ''u1'', Other ''u2''])"
    by (simp add: ex_filter_absent ret)
  with init show ?thesis by simp
qed

text \<open>
  C4: when the mapper has a field filter for \<open>[parentType.name, fieldName]\<close>, the
  filter is called with the list \<open>coerceToList\<close> makes of the result so far (the
  empty list when that gives \<open>null\<close> or \<open>undefined\<close>) and with \<open>parent\<close>, \<open>args\<close>,
  \<open>context\<close> and \<open>info\<close>; what the filter returns is the result that pagination or
  return type coercion then works on, and \<open>usedFieldFilter\<close> is set.
\<close>


theorem fieldFilter_applied:
  assumes ff: "fieldFilterOf E ctx i = Some fieldFilter"
    and init: "initialResult E p a ctx i = Inr (meta, result)"
    and coerced: "coerceToList E result = Inr l"
    and filtered:
      "fieldFilter (case l of Defined xs \<Rightarrow> xs | JNull \<Rightarrow> [] | JUndefined \<Rightarrow> []) p a ctx i
       = Inr v"
  shows "applyFieldFilter E p a ctx i meta result = Inr (meta\<lparr>usedFieldFilter := True\<rparr>, v)
       \<and> mirageRootQueryResolver E p a ctx i
           = (case returnResult E a i v of
                Inl e \<Rightarrow> Inl (AutoResolverError (Thrown e) (meta\<lparr>usedFieldFilter := True\<rparr>))
              | Inr w \<Rightarrow> Inr w)"
  using assms
  by (simp add: mirageRootQueryResolver_def applyFieldFilter_def orEmpty_def)

theorem fieldFilter_applied_witness:
  "mirageRootQueryResolver exEnv Null 2 0 (exInfo ''first'' ''user'' False)
   = Inr (Array [Other ''u1''])"
proof -
  have r: "returnResult exEnv 2 (exInfo ''first'' ''user'' False) (Array [Other ''u1''])
           = Inr (Array [Other ''u1''])"
    by (simp add: returnResult_def ex_isRelayPaginated ex_coerceReturnType)
  from fieldFilter_applied [where E = exEnv and ctx = 0 and i = "exInfo ''first'' ''user'' False"
      and p = Null and a = 2 and l = "Defined [Other ''u1'', Other ''u2'']"
      and v = "Array [Other ''u1'']", OF ex_filter_first ex_initial_first [where ?f = "''first''"] ex_coerceToList(3)]
  show ?thesis by (simp add: r)
qed

text \<open>
  C5, as the claim has it, fails: for a field of type \<open>userConnection\<close> whose field
  filter returns \<open>null\<close>, \<open>coerceToList\<close> gives \<open>null\<close>, \<open>nodes &&\<close> on line 155
  skips \<open>relayPaginateNodes\<close> and the resolver returns \<open>null\<close>, which is no
  connection (paginating even no nodes gives one).
\<close>


theorem relay_pagination_skipped_for_null:
  "endsWith (name (unwrap exEnv (returnType (exInfo ''none'' ''userConnection'' False))))
     ''Connection''
   \<and> mirageRootQueryResolver exEnv Null 2 0 (exInfo ''none'' ''userConnection'' False)
       = Inr Null
   \<and> relayPaginateNodes exEnv [] 2 (mirageCursorForNode exEnv) = Inr (Other ''connection:'')"
  by (simp add: mirageRootQueryResolver_def ex_initial_conn applyFieldFilter_def
      ex_filter_none ex_coerceToList orEmpty_def returnResult_def ex_isRelayPaginated
      ex_relayPaginateNodes endsWith_def)

text \<open>
  C5, amended: for a return type whose name ends in \<open>Connection\<close>, the resolver
  returns \<open>relayPaginateNodes\<close> of the nodes, \<open>args\<close> and \<open>mirageCursorForNode\<close>
  when \<open>coerceToList\<close> makes a list of nodes of the result, and returns \<open>null\<close> or
  \<open>undefined\<close> without paginating when \<open>coerceToList\<close> gives that; for any other
  return type it returns \<open>coerceReturnType\<close> of the result.
\<close>


theorem result_returned:
  assumes init: "initialResult E p a ctx i = Inr (meta, result)"
    and filt: "applyFieldFilter E p a ctx i meta result = Inr (meta', result')"
  shows "(endsWith (name (unwrap E (returnType i))) ''Connection''
            \<and> coerceToList E result' = Inr (Defined nodes) \<longrightarrow>
          mirageRootQueryResolver E p a ctx i
            = (case relayPaginateNodes E nodes a (mirageCursorForNode E) of
                 Inl e \<Rightarrow> Inl (AutoResolverError (Thrown e) meta')
               | Inr v \<Rightarrow> Inr v))
       \<and> (endsWith (name (unwrap E (returnType i))) ''Connection''
            \<and> coerceToList E result' = Inr JNull \<longrightarrow>
          mirageRootQueryResolver E p a ctx i = Inr Null)
       \<and> (endsWith (name (unwrap E (returnType i))) ''Connection''
            \<and> coerceToList E result' = Inr JUndefined \<longrightarrow>
          mirageRootQueryResolver E p a ctx i = Inr Undefined)
       \<and> (\<not> endsWith (name (unwrap E (returnType i))) ''Connection'' \<longrightarrow>
          mirageRootQueryResolver E p a ctx i
            = (case coerceReturnType E result' i of
                 Inl e \<Rightarrow> Inl (AutoResolverError (Thrown e) meta')
               | Inr v \<Rightarrow> Inr v))"
  using assms
  by (simp add: mirageRootQueryResolver_def returnResult_def isRelayPaginated_def)

theorem result_returned_witness:
  "mirageRootQueryResolver exEnv Null 2 0 (exInfo ''people'' ''userConnection'' False)
     = Inr (Other ''connection:u1u2'')
   \<and> mirageRootQueryResolver exEnv Null 2 0 (exInfo ''none'' ''userConnection'' False)
     = Inr Null
   \<and> mirageRootQueryResolver exEnv Null 2 0 (exInfo ''people'' ''user'' False)
     = Inr (Array [Other ''u1'', Other ''u2''])"
proof -
  have conn: "endsWith (name (unwrap exEnv (returnType (exInfo f ''userConnection'' False))))
                ''Connection''" for f
    by (simp add: endsWith_def)
  have plain: "\<not> endsWith (name (unwrap exEnv (returnType (exInfo f ''user'' False))))
                ''Connection''" for f
    by (simp add: endsWith_def)
  have "mirageRootQueryResolver exEnv Null 2 0 (exInfo ''people'' ''userConnection'' False)
     = Inr (Other ''connection:u1u2'')"
    using result_returned [where E = exEnv and i = "exInfo ''people'' ''userConnection'' False"
        and nodes = "[Other ''u1'', Other ''u2'']", OF ex_initial_conn ex_apply_none] conn
    by (simp add: ex_coerceToList ex_relayPaginateNodes ex_cursor)
  moreover have "mirageRootQueryResolver exEnv Null 2 0 (exInfo ''none'' ''userConnection'' False)
     = Inr Null"
    using result_returned [where E = exEnv and i = "exInfo ''none'' ''userConnection'' False",
        OF ex_initial_conn ex_apply_nulled] conn
    by (simp add: ex_coerceToList)
  moreover have "mirageRootQueryResolver exEnv Null 2 0 (exInfo ''people'' ''user'' False)
     = Inr (Array [Other ''u1'', Other ''u2''])"
    using result_returned [where E = exEnv and i = "exInfo ''people'' ''user'' False",
        OF ex_initial_first [where ?f = "''people''"] ex_apply_none] plain
    by (simp add: ex_coerceReturnType)
  ultimately show ?thesis by simp
qed

lemma initialResult_not_wrapped:
  "initialResult E p a ctx i = Inl err \<Longrightarrow> err \<noteq> AutoResolverError e m"
  by (auto simp: initialResult_def findMatchingModelsForType_def Let_def
      split: if_splits sum.splits)

lemma initialResult_meta:
  assumes "initialResult E p a ctx i = Inr (meta, result)"
  shows "metaParent meta = p \<and> metaArgs meta = a \<and> metaInfo meta = i \<and> metaContext meta = ctx
       \<and> autoResolverType meta = ''ROOT_TYPE''
       \<and> isRelay meta = endsWith (name (unwrap E (returnType i))) ''Connection''
       \<and> hasFieldFilter meta = (fieldFilterOf E ctx i \<noteq> None)
       \<and> usedFieldFilter meta = False
       \<and> metaMatch meta
           = (if isScalarType (unwrap E (returnType i)) then None
              else (case findMatchingModelsForType E (returnType i)
                           (fst (extractDependencies E ctx)) (snd (extractDependencies E ctx)) of
                      Inl x \<Rightarrow> None
                    | Inr m \<Rightarrow> Some m))"
  using assms
  by (auto simp: initialResult_def errorMeta_def isRelayPaginated_def Let_def
      split: if_splits sum.splits)

lemma applyFieldFilter_meta:
  assumes "applyFieldFilter E p a ctx i meta result = Inr (meta', result')"
  shows "meta' = (if fieldFilterOf E ctx i = None then meta else meta\<lparr>usedFieldFilter := True\<rparr>)"
  using assms
  by (auto simp: applyFieldFilter_def split: option.splits sum.splits)

text \<open>
  C8: an error that leaves lines 121 to 145 (the scalar error, or the error of the
  model lookup) is the error of the resolver as it is, and is no
  \<open>AutoResolverError\<close>. An error thrown while the field filter is applied, or
  while the result is paginated or coerced, is thrown again inside an
  \<open>AutoResolverError\<close> with the \<open>errorMeta\<close> object of that moment: parent, args,
  info, context, \<open>ROOT_TYPE\<close>, the relay flag, whether there is a field filter,
  whether it has returned, and the match when the return type is no scalar.
\<close>


theorem errors_wrapped:
  "(initialResult E p a ctx i = Inl err \<longrightarrow>
      mirageRootQueryResolver E p a ctx i = Inl err \<and> (\<forall>e m. err \<noteq> AutoResolverError e m))
 \<and> (initialResult E p a ctx i = Inr (meta, result)
      \<and> applyFieldFilter E p a ctx i meta result = Inl ea \<longrightarrow>
      mirageRootQueryResolver E p a ctx i = Inl (AutoResolverError (Thrown ea) meta))
 \<and> (initialResult E p a ctx i = Inr (meta, result)
      \<and> applyFieldFilter E p a ctx i meta result = Inr (meta', result')
      \<and> returnResult E a i result' = Inl eb \<longrightarrow>
      mirageRootQueryResolver E p a ctx i = Inl (AutoResolverError (Thrown eb) meta'))
 \<and> (initialResult E p a ctx i = Inr (meta, result) \<longrightarrow>
      metaParent meta = p \<and> metaArgs meta = a \<and> metaInfo meta = i \<and> metaContext meta = ctx
      \<and> autoResolverType meta = ''ROOT_TYPE''
      \<and> isRelay meta = endsWith (name (unwrap E (returnType i))) ''Connection''
      \<and> hasFieldFilter meta = (fieldFilterOf E ctx i \<noteq> None)
      \<and> usedFieldFilter meta = False
      \<and> metaMatch meta
          = (if isScalarType (unwrap E (returnType i)) then None
             else (case findMatchingModelsForType E (returnType i)
                          (fst (extractDependencies E ctx)) (snd (extractDependencies E ctx)) of
                     Inl x \<Rightarrow> None
                   | Inr m \<Rightarrow> Some m)))
 \<and> (applyFieldFilter E p a ctx i meta result = Inr (meta', result') \<longrightarrow>
      meta' = (if fieldFilterOf E ctx i = None then meta else meta\<lparr>usedFieldFilter := True\<rparr>))"
proof -
  have early: "initialResult E p a ctx i = Inl err \<longrightarrow>
      mirageRootQueryResolver E p a ctx i = Inl err \<and> (\<forall>e m. err \<noteq> AutoResolverError e m)"
    using initialResult_not_wrapped [of E p a ctx i err]
    by (simp add: mirageRootQueryResolver_def)
  have filt: "initialResult E p a ctx i = Inr (meta, result)
      \<and> applyFieldFilter E p a ctx i meta result = Inl ea \<longrightarrow>
      mirageRootQueryResolver E p a ctx i = Inl (AutoResolverError (Thrown ea) meta)"
    by (simp add: mirageRootQueryResolver_def)
  have ret: "initialResult E p a ctx i = Inr (meta, result)
      \<and> applyFieldFilter E p a ctx i meta result = Inr (meta', result')
      \<and> returnResult E a i result' = Inl eb \<longrightarrow>
      mirageRootQueryResolver E p a ctx i = Inl (AutoResolverError (Thrown eb) meta')"
    by (simp add: mirageRootQueryResolver_def)
  from early filt ret initialResult_meta [of E p a ctx i meta result]
    applyFieldFilter_meta [of E p a ctx i meta result meta' result']
  show ?thesis by blast
qed

theorem errors_wrapped_witness:
  "mirageRootQueryResolver exEnv Null 2 0 (exInfo ''people'' ''Ghost'' False)
     = Inl (UnableToLookUpCollection None (Thrown ''collection does not exist''))
   \<and> mirageRootQueryResolver exEnv Null 2 0 (exInfo ''broken'' ''user'' False)
     = Inl (AutoResolverError (Thrown ''filter failed'')
              ((errorMeta exEnv Null 2 0 (exInfo ''broken'' ''user'' False))
                 \<lparr>metaMatch :=
                    Some \<lparr>models = Array [Other ''u1'', Other ''u2''],
                          matchedModelName = Some ''user'',
                          modelNameCandidates = [''user'']\<rparr>\<rparr>))
   \<and> mirageRootQueryResolver exEnv Null 2 0 (exInfo ''bad'' ''user'' False)
     = Inl (AutoResolverError (Thrown ''cannot coerce'')
              ((errorMeta exEnv Null 2 0 (exInfo ''bad'' ''user'' False))
                 \<lparr>metaMatch :=
                    Some \<lparr>models = Array [Other ''u1'', Other ''u2''],
                          matchedModelName = Some ''user'',
                          modelNameCandidates = [''user'']\<rparr>,
                  usedFieldFilter := True\<rparr>))
   \<and> hasFieldFilter (errorMeta exEnv Null 2 0 (exInfo ''broken'' ''user'' False))
   \<and> autoResolverType (errorMeta exEnv Null 2 0 (exInfo ''broken'' ''user'' False))
       = ''ROOT_TYPE''"
proof -
  have "mirageRootQueryResolver exEnv Null 2 0 (exInfo ''people'' ''Ghost'' False)
     = Inl (UnableToLookUpCollection None (Thrown ''collection does not exist''))"
    using errors_wrapped [where E = exEnv and p = Null and a = 2 and ctx = 0
        and i = "exInfo ''people'' ''Ghost'' False"
        and err = "UnableToLookUpCollection None (Thrown ''collection does not exist'')"]
      ex_initial_ghost
    by simp
  moreover have "mirageRootQueryResolver exEnv Null 2 0 (exInfo ''broken'' ''user'' False)
     = Inl (AutoResolverError (Thrown ''filter failed'')
              ((errorMeta exEnv Null 2 0 (exInfo ''broken'' ''user'' False))
                 \<lparr>metaMatch :=
                    Some \<lparr>models = Array [Other ''u1'', Other ''u2''],
                          matchedModelName = Some ''user'',
                          modelNameCandidates = [''user'']\<rparr>\<rparr>))"
    using errors_wrapped [where E = exEnv and p = Null and a = 2 and ctx = 0
        and i = "exInfo ''broken'' ''user'' False" and ea = "''filter failed''"
        and result = "Array [Other ''u1'', Other ''u2'']"
        and meta = "(errorMeta exEnv Null 2 0 (exInfo ''broken'' ''user'' False))
                 \<lparr>metaMatch :=
                    Some \<lparr>models = Array [Other ''u1'', Other ''u2''],
                          matchedModelName = Some ''user'',
                          modelNameCandidates = [''user'']\<rparr>\<rparr>"]
      ex_initial_first [where ?f = "''broken''"]
    by (simp add: ex_apply_broken)
  moreover have "mirageRootQueryResolver exEnv Null 2 0 (exInfo ''bad'' ''user'' False)
     = Inl (AutoResolverError (Thrown ''cannot coerce'')
              ((errorMeta exEnv Null 2 0 (exInfo ''bad'' ''user'' False))
                 \<lparr>metaMatch :=
                    Some \<lparr>models = Array [Other ''u1'', Other ''u2''],
                          matchedModelName = Some ''user'',
                          modelNameCandidates = [''user'']\<rparr>,
                  usedFieldFilter := True\<rparr>))"
    using errors_wrapped [where E = exEnv and p = Null and a = 2 and ctx = 0
        and i = "exInfo ''bad'' ''user'' False" and eb = "''cannot coerce''"
        and result = "Array [Other ''u1'', Other ''u2'']"
        and result' = "Other ''bad''"
        and meta = "(errorMeta exEnv Null 2 0 (exInfo ''bad'' ''user'' False))
                 \<lparr>metaMatch :=
                    Some \<lparr>models = Array [Other ''u1'', Other ''u2''],
                          matchedModelName = Some ''user'',
                          modelNameCandidates = [''user'']\<rparr>\<rparr>"
        and meta' = "(errorMeta exEnv Null 2 0 (exInfo ''bad'' ''user'' False))
                 \<lparr>metaMatch :=
                    Some \<lparr>models = Array [Other ''u1'', Other ''u2''],
                          matchedModelName = Some ''user'',
                          modelNameCandidates = [''user'']\<rparr>,
                  usedFieldFilter := True\<rparr>"]
      ex_initial_first [where ?f = "''bad''"]
    by (simp add: ex_apply_bad ex_return_bad)
  moreover have "hasFieldFilter (errorMeta exEnv Null 2 0 (exInfo ''broken'' ''user'' False))"
    "autoResolverType (errorMeta exEnv Null 2 0 (exInfo ''broken'' ''user'' False)) = ''ROOT_TYPE''"
    by (simp_all add: errorMeta_def ex_filter_broken)
  ultimately show ?thesis by simp
qed

text \<open>
  C9, as the claim has it, fails: a scalar may be named \<open>IntConnection\<close>. With a
  field filter, the result of the filter then goes through \<open>relayPaginateNodes\<close>
  and not through \<open>coerceReturnType\<close>, which would have returned it as it is.
\<close>


theorem scalar_connection_is_paginated:
  "isScalarType (unwrap exEnv (returnType (exInfo ''count'' ''IntConnection'' True)))
   \<and> fieldFilterOf exEnv 0 (exInfo ''count'' ''IntConnection'' True)
       = Some (\<lambda>rs p a ctx i. Inr (Array (Other ''n'' # rs)))
   \<and> mirageRootQueryResolver exEnv Null 2 0 (exInfo ''count'' ''IntConnection'' True)
       = Inr (Other ''connection:n'')
   \<and> coerceReturnType exEnv (Array [Other ''n'']) (exInfo ''count'' ''IntConnection'' True)
       = Inr (Array [Other ''n''])"
  by (simp add: mirageRootQueryResolver_def initialResult_def isScalarType_def ex_filter_count
      applyFieldFilter_def ex_coerceToList orEmpty_def returnResult_def ex_isRelayPaginated
      ex_relayPaginateNodes ex_cursor ex_coerceReturnType)

lemma scalar_ignores_server:
  assumes "isScalarType (unwrap E (returnType i))"
  shows "mirageRootQueryResolver
           (E\<lparr>extractDependencies := \<lambda>c. (fst (extractDependencies E c), srv c)\<rparr>) p a ctx i
         = mirageRootQueryResolver E p a ctx i"
proof -
  let ?E = "E\<lparr>extractDependencies := \<lambda>c. (fst (extractDependencies E c), srv c)\<rparr>"
  have ff: "fieldFilterOf ?E ctx i = fieldFilterOf E ctx i"
    by (simp add: fieldFilterOf_def)
  have meta: "errorMeta ?E p a ctx i = errorMeta E p a ctx i"
    by (simp add: errorMeta_def ff isRelayPaginated_def)
  have init: "initialResult ?E p a ctx i = initialResult E p a ctx i"
    using assms by (simp add: initialResult_def ff meta)
  have filt: "applyFieldFilter ?E p a ctx i m r = applyFieldFilter E p a ctx i m r" for m r
    by (simp add: applyFieldFilter_def ff split: option.splits)
  have ret: "returnResult ?E a i r = returnResult E a i r" for r
    by (simp add: returnResult_def isRelayPaginated_def split: sum.splits nullable.splits)
  show ?thesis
    by (simp only: mirageRootQueryResolver_def init filt ret)
qed

text \<open>
  C9, amended: for a return type that unwraps to a scalar, the resolver does not
  depend on the mirage server. Without a field filter it throws the error of line
  128. With a field filter, when \<open>coerceToList(null)\<close> gives \<open>null\<close>, \<open>undefined\<close>
  or the empty list, the filter is called with the empty list, and what it returns
  goes through lines 153 to 158: through \<open>coerceReturnType\<close> when the name of the
  scalar does not end in \<open>Connection\<close>.
\<close>


theorem scalar_root_field:
  assumes scalar: "isScalarType (unwrap E (returnType i))"
  shows "(fieldFilterOf E ctx i = None \<longrightarrow>
            mirageRootQueryResolver E p a ctx i
              = Inl (ScalarsCannotBeAutoResolved (name (parentType i)) (infoFieldName i)
                       (name (unwrap E (returnType i)))))
       \<and> (fieldFilterOf E ctx i = Some fieldFilter
            \<and> coerceToList E Null = Inr l
            \<and> (case l of Defined xs \<Rightarrow> xs | JNull \<Rightarrow> [] | JUndefined \<Rightarrow> []) = []
            \<and> fieldFilter [] p a ctx i = Inr v \<longrightarrow>
            mirageRootQueryResolver E p a ctx i
              = (case returnResult E a i v of
                   Inl e \<Rightarrow>
                     Inl (AutoResolverError (Thrown e)
                            ((errorMeta E p a ctx i)\<lparr>usedFieldFilter := True\<rparr>))
                 | Inr w \<Rightarrow> Inr w)
            \<and> (\<not> endsWith (name (unwrap E (returnType i))) ''Connection'' \<longrightarrow>
                 returnResult E a i v = coerceReturnType E v i))
       \<and> mirageRootQueryResolver
           (E\<lparr>extractDependencies := \<lambda>c. (fst (extractDependencies E c), srv c)\<rparr>) p a ctx i
         = mirageRootQueryResolver E p a ctx i"
proof -
  have none: "fieldFilterOf E ctx i = None \<longrightarrow>
            mirageRootQueryResolver E p a ctx i
              = Inl (ScalarsCannotBeAutoResolved (name (parentType i)) (infoFieldName i)
                       (name (unwrap E (returnType i))))"
    using scalar by (simp add: mirageRootQueryResolver_def initialResult_def)
  have some: "fieldFilterOf E ctx i = Some fieldFilter
            \<and> coerceToList E Null = Inr l
            \<and> (case l of Defined xs \<Rightarrow> xs | JNull \<Rightarrow> [] | JUndefined \<Rightarrow> []) = []
            \<and> fieldFilter [] p a ctx i = Inr v \<longrightarrow>
            mirageRootQueryResolver E p a ctx i
              = (case returnResult E a i v of
                   Inl e \<Rightarrow>
                     Inl (AutoResolverError (Thrown e)
                            ((errorMeta E p a ctx i)\<lparr>usedFieldFilter := True\<rparr>))
                 | Inr w \<Rightarrow> Inr w)
            \<and> (\<not> endsWith (name (unwrap E (returnType i))) ''Connection'' \<longrightarrow>
                 returnResult E a i v = coerceReturnType E v i)"
    using scalar
    by (simp add: mirageRootQueryResolver_def initialResult_def applyFieldFilter_def
        orEmpty_def returnResult_def isRelayPaginated_def)
  from none some scalar_ignores_server [OF scalar] show ?thesis by blast
qed

theorem scalar_root_field_witness:
  "mirageRootQueryResolver exEnv Null 2 0 (exInfo ''total'' ''Int'' True)
     = Inl (ScalarsCannotBeAutoResolved ''Query'' ''total'' ''Int'')
   \<and> mirageRootQueryResolver exEnv Null 2 0 (exInfo ''count'' ''Int'' True)
     = Inr (Array [Other ''n''])
   \<and> mirageRootQueryResolver
       (exEnv\<lparr>extractDependencies := \<lambda>c. (fst (extractDependencies exEnv c), None)\<rparr>)
       Null 2 0 (exInfo ''count'' ''Int'' True)
     = Inr (Array [Other ''n''])"
proof -
  have sc: "isScalarType (unwrap exEnv (returnType (exInfo f ''Int'' True)))" for f
    by (simp add: isScalarType_def)
  have plain: "\<not> endsWith (name (unwrap exEnv (returnType (exInfo f ''Int'' True))))
                 ''Connection''" for f
    by (simp add: endsWith_def)
  have "mirageRootQueryResolver exEnv Null 2 0 (exInfo ''total'' ''Int'' True)
     = Inl (ScalarsCannotBeAutoResolved ''Query'' ''total'' ''Int'')"
    using scalar_root_field [OF sc [of "''total''"], where ctx = 0 and p = Null and a = 2]
    by (simp add: ex_filter_absent)
  moreover have count: "mirageRootQueryResolver exEnv Null 2 0 (exInfo ''count'' ''Int'' True)
     = Inr (Array [Other ''n''])"
    using scalar_root_field [OF sc [of "''count''"], where ctx = 0 and p = Null and a = 2
        and l = JNull and v = "Array [Other ''n'']"
        and fieldFilter = "\<lambda>rs p a ctx i. Inr (Array (Other ''n'' # rs))"] plain
    by (simp add: ex_filter_count ex_coerceToList ex_coerceReturnType)
  moreover have "mirageRootQueryResolver
       (exEnv\<lparr>extractDependencies := \<lambda>c. (fst (extractDependencies exEnv c), None)\<rparr>)
       Null 2 0 (exInfo ''count'' ''Int'' True)
     = Inr (Array [Other ''n''])"
    using scalar_root_field [OF sc [of "''count''"], where ctx = 0 and p = Null and a = 2
        and srv = "\<lambda>c. None"] count
    by simp
  ultimately show ?thesis by simp
qed

end
